theory Spec2Isabelle
  imports Complex_Main
begin

section \<open>Errors\<close>

text \<open>
  Every failure of the Python code is a value. \<open>RuntimeError\<close> is what the tensor
  library raises on a size mismatch, \<open>ValueError\<close> what its batch normalisation raises
  on a single training sample, \<open>AssertionError\<close> the failed assertion of the attention
  layer's constructor, \<open>UnboundLocalError\<close> Python's reading of a local that no branch
  assigned, \<open>ZeroDivisionError\<close> and \<open>IndexError\<close> Python's own.
\<close>

datatype error =
    RuntimeError | ValueError | AssertionError | UnboundLocalError
  | ZeroDivisionError | IndexError

text \<open>Sequencing of steps that can fail: the first error ends the computation.\<close>

definition seq :: "error + 'a \<Rightarrow> ('a \<Rightarrow> error + 'b) \<Rightarrow> error + 'b" where
  "seq r f = (case r of Inl e \<Rightarrow> Inl e | Inr x \<Rightarrow> f x)"

section \<open>Construction of \<open>Transformer\<close>: the normalisation stages\<close>

text \<open>
  The three modules that \<open>Transformer.__init__\<close> can install at a normalisation stage:
  \<open>MyBatchNorm1d(num_features, momentum)\<close>, \<open>nn.BatchNorm1d(num_features)\<close> and the
  pass-through \<open>EmptyModule()\<close>.
\<close>

datatype bn_module =
    MyBatchNorm1d nat real
  | BatchNorm1d nat
  | EmptyModule

record config =
  d_model :: nat
  n_layers :: nat
  n_heads :: nat
  feedforward_size :: nat
  trans_dropout_rate :: real
  main_dropout_rate :: real
  diagnosis_size :: nat
  batchnorm :: string
  last_linear_size :: nat
  no_exp :: bool

text \<open>\<open>self.momentum = 0.01 if self.batchnorm == 'low_momentum' else 0.1\<close>\<close>

definition momentum :: "config \<Rightarrow> real" where
  "momentum c = (if batchnorm c = ''low_momentum'' then 0.01 else 0.1)"

text \<open>Lines 110 to 115: the stage after the diagnosis encoder.\<close>

definition bn_diagnosis_encoder :: "config \<Rightarrow> bn_module" where
  "bn_diagnosis_encoder c =
     (if batchnorm c \<in> set [''mybatchnorm'', ''low_momentum'']
        then MyBatchNorm1d (diagnosis_size c) (momentum c)
      else if batchnorm c = ''default''
        then BatchNorm1d (diagnosis_size c)
      else EmptyModule)"

text \<open>Lines 123 to 128: the stage after the point-wise projection.\<close>

definition bn_point_last :: "config \<Rightarrow> bn_module" where
  "bn_point_last c =
     (if batchnorm c \<in> set [''mybatchnorm'', ''pointonly'', ''low_momentum'']
        then MyBatchNorm1d (last_linear_size c) (momentum c)
      else if batchnorm c = ''default''
        then BatchNorm1d (last_linear_size c)
      else EmptyModule)"

text \<open>
  The configuration of the spec's end-to-end example: \<open>d_model = 8\<close>, one layer, two
  heads; the fields the example leaves open have the values of the experiment scripts.
\<close>

definition cfg0 :: config where
  "cfg0 = \<lparr>d_model = 8, n_layers = 1, n_heads = 2, feedforward_size = 64,
            trans_dropout_rate = 0.1, main_dropout_rate = 0.45,
            diagnosis_size = 64, batchnorm = ''mybatchnorm'', last_linear_size = 17,
            no_exp = False\<rparr>"

section \<open>The output transform\<close>









section \<open>Tensors\<close>

text \<open>
  A tensor is its shape and its elements, read by a multi-index with one entry per
  dimension. Only the elements at indices inside the shape belong to the tensor.
\<close>

type_synonym shape = "nat list"

record 'a tensor =
  shape :: shape
  elem :: "nat list \<Rightarrow> 'a"

text \<open>
  The floating-point values the causal mask needs: a finite number (read as a real) or
  \<open>float('-inf')\<close>.
\<close>

datatype float = Fin real | NegInf

subsection \<open>Shapes\<close>

text \<open>
  Broadcasting of two sizes: equal sizes stay, a size of 1 stretches to the other one
  (also to 0), anything else is the library's size-mismatch \<open>RuntimeError\<close>.
\<close>

definition broadcast_dim :: "nat \<Rightarrow> nat \<Rightarrow> error + nat" where
  "broadcast_dim a b =
     (if a = b then Inr a else if a = 1 then Inr b else if b = 1 then Inr a
      else Inl RuntimeError)"

text \<open>Shapes are aligned at their last dimension; here both are given last dimension first.\<close>

fun broadcast_rev :: "shape \<Rightarrow> shape \<Rightarrow> error + shape" where
  "broadcast_rev [] ys = Inr ys"
| "broadcast_rev xs [] = Inr xs"
| "broadcast_rev (x # xs) (y # ys) =
     (case broadcast_dim x y of
        Inl e \<Rightarrow> Inl e
      | Inr d \<Rightarrow> (case broadcast_rev xs ys of Inl e \<Rightarrow> Inl e | Inr ds \<Rightarrow> Inr (d # ds)))"

definition broadcast_shapes :: "shape \<Rightarrow> shape \<Rightarrow> error + shape" where
  "broadcast_shapes a b =
     (case broadcast_rev (rev a) (rev b) of Inl e \<Rightarrow> Inl e | Inr s \<Rightarrow> Inr (rev s))"

text \<open>
  The index at which an operand of shape \<open>s\<close> is read for the index \<open>ix\<close> of the broadcast
  result: the leading dimensions the operand lacks are dropped, a dimension of size 1 is
  read at 0.
\<close>

definition bc_index :: "shape \<Rightarrow> nat list \<Rightarrow> nat list" where
  "bc_index s ix = map2 (\<lambda>d i. if d = 1 then 0 else i) s (drop (length ix - length s) ix)"

text \<open>\<open>t[..., :n]\<close> on dimension \<open>k\<close>: the slice stops at the end of the dimension.\<close>

definition slice_to_shape :: "nat \<Rightarrow> nat \<Rightarrow> shape \<Rightarrow> shape" where
  "slice_to_shape k n s = s[k := min n (s ! k)]"

text \<open>\<open>t[..., n:]\<close> on dimension \<open>k\<close>: empty when the dimension has no more than \<open>n\<close> entries.\<close>

definition slice_from_shape :: "nat \<Rightarrow> nat \<Rightarrow> shape \<Rightarrow> shape" where
  "slice_from_shape k n s = s[k := s ! k - n]"

definition permute_shape :: "nat list \<Rightarrow> shape \<Rightarrow> shape" where
  "permute_shape perm s = map (\<lambda>p. s ! p) perm"

definition numel :: "shape \<Rightarrow> nat" where
  "numel s = prod_list s"

subsection \<open>Tensor operations\<close>

definition zeros :: "shape \<Rightarrow> real tensor" where
  "zeros s = \<lparr>shape = s, elem = (\<lambda>ix. 0)\<rparr>"

definition ones :: "shape \<Rightarrow> real tensor" where
  "ones s = \<lparr>shape = s, elem = (\<lambda>ix. 1)\<rparr>"

text \<open>\<open>torch.arange(start, end, step)\<close>: the values \<open>start, start + step, ...\<close> below \<open>end\<close>.\<close>

definition arange :: "nat \<Rightarrow> nat \<Rightarrow> nat \<Rightarrow> real tensor" where
  "arange start end step =
     \<lparr>shape = [(end - start + step - 1) div step],
      elem = (\<lambda>ix. real (start + (ix ! 0) * step))\<rparr>"

definition tmap :: "('a \<Rightarrow> 'b) \<Rightarrow> 'a tensor \<Rightarrow> 'b tensor" where
  "tmap f t = \<lparr>shape = shape t, elem = (\<lambda>ix. f (elem t ix))\<rparr>"

definition unsqueeze :: "nat \<Rightarrow> 'a tensor \<Rightarrow> 'a tensor" where
  "unsqueeze k t =
     \<lparr>shape = take k (shape t) @ [1] @ drop k (shape t),
      elem = (\<lambda>ix. elem t (take k ix @ drop (Suc k) ix))\<rparr>"

text \<open>
  \<open>t.permute(perm)\<close>: dimension \<open>k\<close> of the result is dimension \<open>perm ! k\<close> of \<open>t\<close>, so
  the element at \<open>ix\<close> is the element of \<open>t\<close> at the index that has \<open>ix ! k\<close> at place
  \<open>perm ! k\<close>.
\<close>

definition permute :: "nat list \<Rightarrow> 'a tensor \<Rightarrow> 'a tensor" where
  "permute perm t =
     \<lparr>shape = permute_shape perm (shape t),
      elem = (\<lambda>ix. elem t (fold (\<lambda>k src. src[perm ! k := ix ! k]) [0..<length perm]
                               (replicate (length perm) 0)))\<rparr>"

text \<open>\<open>t.transpose(0, 1)\<close> of a matrix.\<close>

definition transpose01 :: "'a tensor \<Rightarrow> 'a tensor" where
  "transpose01 t = permute [1, 0] t"

text \<open>An element-wise binary operation with broadcasting.\<close>

definition bc_op :: "('a \<Rightarrow> 'b \<Rightarrow> 'c) \<Rightarrow> 'a tensor \<Rightarrow> 'b tensor \<Rightarrow> error + 'c tensor" where
  "bc_op f a b =
     (case broadcast_shapes (shape a) (shape b) of
        Inl e \<Rightarrow> Inl e
      | Inr s \<Rightarrow> Inr \<lparr>shape = s,
                      elem = (\<lambda>ix. f (elem a (bc_index (shape a) ix))
                                      (elem b (bc_index (shape b) ix)))\<rparr>)"

definition slice_to :: "nat \<Rightarrow> nat \<Rightarrow> 'a tensor \<Rightarrow> 'a tensor" where
  "slice_to k n t = \<lparr>shape = slice_to_shape k n (shape t), elem = elem t\<rparr>"

text \<open>
  \<open>torch.triu\<close> of a matrix keeps the elements on and above the diagonal (column index
  at least the row index) and zeroes the others.
\<close>

definition triu :: "real tensor \<Rightarrow> real tensor" where
  "triu t = \<lparr>shape = shape t,
             elem = (\<lambda>ix. if ix ! 0 \<le> ix ! 1 then elem t ix else 0)\<rparr>"

text \<open>\<open>t.masked_fill(m, v)\<close> for a mask \<open>m\<close> of the shape of \<open>t\<close>.\<close>

definition masked_fill :: "'a tensor \<Rightarrow> bool tensor \<Rightarrow> 'a \<Rightarrow> 'a tensor" where
  "masked_fill t m v =
     \<lparr>shape = shape t, elem = (\<lambda>ix. if elem m ix then v else elem t ix)\<rparr>"

text \<open>\<open>m.float()\<close> of a boolean tensor: 1.0 for true, 0.0 for false.\<close>

definition to_float :: "bool tensor \<Rightarrow> float tensor" where
  "to_float m = tmap (\<lambda>b. if b then Fin 1 else Fin 0) m"

text \<open>
  \<open>t[:, start::step] = v\<close> on a matrix \<open>t\<close>: the target is the view of the columns
  \<open>start, start + step, ...\<close>; \<open>v\<close> is broadcast to the view's shape, which fails with a
  \<open>RuntimeError\<close> unless each dimension of \<open>v\<close> has the view's size or size 1.
\<close>

definition expand_to :: "shape \<Rightarrow> shape \<Rightarrow> bool" where
  "expand_to v target \<longleftrightarrow>
     length v \<le> length target \<and>
     list_all2 (\<lambda>d t. d = t \<or> d = 1) v (drop (length target - length v) target)"

definition setitem_cols :: "nat \<Rightarrow> nat \<Rightarrow> real tensor \<Rightarrow> real tensor \<Rightarrow> error + real tensor" where
  "setitem_cols start step t v =
     (let view = [shape t ! 0, (shape t ! 1 - start + step - 1) div step] in
      if expand_to (shape v) view then
        Inr \<lparr>shape = shape t,
             elem = (\<lambda>ix. if start \<le> ix ! 1 \<and> (ix ! 1 - start) mod step = 0
                          then elem v (bc_index (shape v) [ix ! 0, (ix ! 1 - start) div step])
                          else elem t ix)\<rparr>
      else Inl RuntimeError)"

section \<open>\<open>PositionalEncoding\<close>\<close>

text \<open>
  \<open>PositionalEncoding.__init__(d_model, max_len)\<close>, lines 18 to 24. The division
  \<open>-math.log(10000.0) / d_model\<close> is Python's and raises \<open>ZeroDivisionError\<close> for
  \<open>d_model = 0\<close>. The result is the buffer \<open>pe\<close>.
\<close>

definition PositionalEncoding_init :: "nat \<Rightarrow> nat \<Rightarrow> error + real tensor" where
  "PositionalEncoding_init dm max_len =
     (let pe = zeros [max_len, dm];
          position = unsqueeze 1 (arange 0 max_len 1)
      in if dm = 0 then Inl ZeroDivisionError
         else
           let div_term = tmap exp (tmap (\<lambda>x. x * (- ln 10000 / real dm)) (arange 0 dm 2))
           in seq (bc_op (*) position div_term) (\<lambda>arg.
              seq (setitem_cols 0 2 pe (tmap sin arg)) (\<lambda>pe1.
              seq (setitem_cols 1 2 pe1 (tmap cos arg)) (\<lambda>pe2.
                Inr (permute [0, 2, 1] (unsqueeze 0 pe2))))))"

text \<open>
  \<open>PositionalEncoding.forward(X)\<close>, line 29: \<open>X.size(2)\<close> raises \<open>IndexError\<close> on a
  tensor of fewer than three dimensions; the sum broadcasts.
\<close>

definition PositionalEncoding_forward :: "real tensor \<Rightarrow> real tensor \<Rightarrow> error + real tensor" where
  "PositionalEncoding_forward pe X =
     (if length (shape X) < 3 then Inl IndexError
      else bc_op (+) X (slice_to 2 (shape X ! 2) pe))"

section \<open>\<open>TransformerEncoder\<close>\<close>

text \<open>
  \<open>TransformerEncoder._causal_mask(size)\<close>, lines 46 to 48. \<open>mask == 0\<close> and
  \<open>mask == 1\<close> compare the boolean tensor with a number.
\<close>

definition causal_mask :: "nat \<Rightarrow> float tensor" where
  "causal_mask sz =
     (let mask = transpose01 (tmap (\<lambda>x. x = 1) (triu (ones [sz, sz])));
          mask1 = masked_fill (to_float mask) (tmap (\<lambda>b. of_bool b = (0::nat)) mask) NegInf;
          mask2 = masked_fill mask1 (tmap (\<lambda>b. of_bool b = (1::nat)) mask) (Fin 0.0)
      in mask2)"





text \<open>
  The shapes of the library layers. \<open>nn.Conv1d(in_channels, out_channels,
  kernel_size=1)\<close> takes \<open>B * in_channels * T\<close> with \<open>T\<close> at least the kernel size.
\<close>

definition Conv1d_k1 :: "nat \<Rightarrow> nat \<Rightarrow> shape \<Rightarrow> error + shape" where
  "Conv1d_k1 in_channels out_channels s =
     (case s of
        [B, C, T] \<Rightarrow>
          if C \<noteq> in_channels \<or> T < 1 then Inl RuntimeError else Inr [B, out_channels, T]
      | _ \<Rightarrow> Inl RuntimeError)"

text \<open>
  \<open>nn.TransformerEncoder\<close> on \<open>src\<close> of shape \<open>T * B * d_model\<close> with a two-dimensional
  mask: every layer asserts the embedding width and checks that the mask is \<open>T * T\<close>;
  the output has the shape of \<open>src\<close>. A stack of no layers returns \<open>src\<close> unchecked.
\<close>

definition nn_TransformerEncoder :: "nat \<Rightarrow> nat \<Rightarrow> shape \<Rightarrow> shape \<Rightarrow> error + shape" where
  "nn_TransformerEncoder dm num_layers src attn_mask =
     (if num_layers = 0 then Inr src
      else case src of
        [T, B, E] \<Rightarrow>
          if E \<noteq> dm then Inl AssertionError
          else if attn_mask \<noteq> [T, T] then Inl RuntimeError
          else Inr src
      | _ \<Rightarrow> Inl RuntimeError)"

text \<open>\<open>PositionalEncoding(d_model)\<close> is built with the default \<open>max_len=14*24\<close>.\<close>

definition max_len_default :: nat where
  "max_len_default = 14 * 24"

record encoder =
  enc_d_model :: nat
  enc_input_size :: nat
  enc_num_layers :: nat
  enc_pe :: "real tensor"

text \<open>
  \<open>nn.Dropout(p)\<close> raises \<open>ValueError\<close> for \<open>p\<close> outside \<open>[0, 1]\<close>. The encoder
  layer first builds its attention, which computes \<open>embed_dim // num_heads\<close> and asserts
  that the heads divide the width, and then its dropouts.
\<close>

definition Dropout_init :: "real \<Rightarrow> error + unit" where
  "Dropout_init p = (if p < 0 \<or> p > 1 then Inl ValueError else Inr ())"

definition TransformerEncoderLayer_init :: "nat \<Rightarrow> nat \<Rightarrow> real \<Rightarrow> error + unit" where
  "TransformerEncoderLayer_init dm nhead dropout =
     (if nhead = 0 then Inl ZeroDivisionError
      else if (dm div nhead) * nhead \<noteq> dm then Inl AssertionError
      else Dropout_init dropout)"

text \<open>\<open>TransformerEncoder.__init__\<close>, lines 37 to 43.\<close>

definition TransformerEncoder_init ::
  "nat \<Rightarrow> nat \<Rightarrow> nat \<Rightarrow> nat \<Rightarrow> nat \<Rightarrow> real \<Rightarrow> error + encoder" where
  "TransformerEncoder_init input_size dm num_layers num_heads ff_size dropout =
     seq (PositionalEncoding_init dm max_len_default) (\<lambda>pe.
     seq (TransformerEncoderLayer_init dm num_heads dropout) (\<lambda>_.
       Inr \<lparr>enc_d_model = dm, enc_input_size = input_size,
            enc_num_layers = num_layers, enc_pe = pe\<rparr>))"

text \<open>
  The shape of \<open>PositionalEncoding.forward(X)\<close>, from the shapes of \<open>pe\<close> and \<open>X\<close>.
\<close>

definition PositionalEncoding_forward_shape :: "shape \<Rightarrow> shape \<Rightarrow> error + shape" where
  "PositionalEncoding_forward_shape pe X =
     (if length X < 3 then Inl IndexError
      else broadcast_shapes X (slice_to_shape 2 (X ! 2) pe))"

text \<open>
  \<open>TransformerEncoder.forward(X, T)\<close>, lines 54 to 57, on the shape of \<open>X\<close>. The
  product with \<open>math.sqrt(self.d_model)\<close> keeps the shape.
\<close>

definition TransformerEncoder_forward :: "encoder \<Rightarrow> shape \<Rightarrow> nat \<Rightarrow> error + shape" where
  "TransformerEncoder_forward enc X T =
     seq (Conv1d_k1 (enc_input_size enc) (enc_d_model enc) X) (\<lambda>X1.
     seq (PositionalEncoding_forward_shape (shape (enc_pe enc)) X1) (\<lambda>X2.
     seq (nn_TransformerEncoder (enc_d_model enc) (enc_num_layers enc)
            (permute_shape [2, 0, 1] X2) (shape (causal_mask T))) (\<lambda>X3.
       Inr (permute_shape [1, 2, 0] X3))))"

section \<open>\<open>Transformer\<close>\<close>

record model =
  model_cfg :: config
  model_F :: nat
  model_D :: nat
  no_flat_features :: nat
  transformer :: encoder

text \<open>
  \<open>Transformer.__init__\<close>: the two dropout modules (lines 92 and 93), then the encoder
  (line 101); the linear layers and the normalisation stages are fixed by the
  configuration.
\<close>

definition Transformer_init :: "config \<Rightarrow> nat \<Rightarrow> nat \<Rightarrow> nat \<Rightarrow> error + model" where
  "Transformer_init c F D nff =
     seq (Dropout_init (trans_dropout_rate c)) (\<lambda>_.
     seq (Dropout_init (main_dropout_rate c)) (\<lambda>_.
     seq (TransformerEncoder_init (2 * F + 2) (d_model c) (n_layers c) (n_heads c)
            (feedforward_size c) (trans_dropout_rate c)) (\<lambda>enc.
       Inr \<lparr>model_cfg = c, model_F = F, model_D = D, no_flat_features = nff,
            transformer = enc\<rparr>)))"

text \<open>\<open>nn.Linear(in_features, out_features)\<close> acts on the last dimension.\<close>

definition Linear :: "nat \<Rightarrow> nat \<Rightarrow> shape \<Rightarrow> error + shape" where
  "Linear in_features out_features s =
     (if s = [] \<or> last s \<noteq> in_features then Inl RuntimeError
      else Inr (butlast s @ [out_features]))"

text \<open>
  Modelled from the spec: \<open>MyBatchNorm1d\<close> is defined in \<open>models/tpc_model.py\<close>. The
  spec calls it a batch normalisation whose momentum can be lowered; a normalisation
  keeps the shape of its input.
\<close>

definition MyBatchNorm1d_forward :: "nat \<Rightarrow> real \<Rightarrow> shape \<Rightarrow> error + shape" where
  "MyBatchNorm1d_forward num_features mom s = Inr s"

text \<open>
  Modelled from the spec: \<open>EmptyModule\<close> is defined in \<open>models/tpc_model.py\<close>. The
  spec calls it an identity module acting as a pass-through stage.
\<close>

definition EmptyModule_forward :: "shape \<Rightarrow> error + shape" where
  "EmptyModule_forward s = Inr s"

text \<open>
  \<open>nn.BatchNorm1d(num_features)\<close> takes two or three dimensions, refuses in training
  mode an input with one value per channel, and needs \<open>num_features\<close> channels.
\<close>

definition BatchNorm1d_forward :: "bool \<Rightarrow> nat \<Rightarrow> shape \<Rightarrow> error + shape" where
  "BatchNorm1d_forward training num_features s =
     (if length s \<noteq> 2 \<and> length s \<noteq> 3 then Inl ValueError
      else if training \<and> s ! 0 * prod_list (drop 2 s) = 1 then Inl ValueError
      else if s ! 1 \<noteq> num_features then Inl RuntimeError
      else Inr s)"

text \<open>The call of the module installed at a normalisation stage.\<close>

definition bn_forward :: "bool \<Rightarrow> bn_module \<Rightarrow> shape \<Rightarrow> error + shape" where
  "bn_forward training m s =
     (case m of
        EmptyModule \<Rightarrow> EmptyModule_forward s
      | MyBatchNorm1d n mom \<Rightarrow> MyBatchNorm1d_forward n mom s
      | BatchNorm1d n \<Rightarrow> BatchNorm1d_forward training n s)"

text \<open>
  \<open>t.repeat_interleave(repeats, dim=dim)\<close> with a number of repeats: a negative number
  is a \<open>RuntimeError\<close>.
\<close>

definition repeat_interleave :: "int \<Rightarrow> nat \<Rightarrow> shape \<Rightarrow> error + shape" where
  "repeat_interleave repeats axis s =
     (if axis \<ge> length s then Inl IndexError
      else if repeats < 0 then Inl RuntimeError
      else Inr (s[axis := s ! axis * nat repeats]))"

text \<open>
  \<open>t.view(sizes)\<close> of a contiguous tensor, where one size may be -1 and is then
  inferred from the number of elements. The library refuses a size below -1, two sizes
  of -1, sizes whose product does not fit the number of elements, and an inferred size
  when the product of the other sizes is 0 (the inferred size would be ambiguous).
\<close>

definition view :: "int list \<Rightarrow> shape \<Rightarrow> error + shape" where
  "view sizes s =
     (let newsize = prod_list (map nat (filter (\<lambda>d. d \<noteq> -1) sizes));
          infer = (-1 \<in> set sizes)
      in if (\<exists>d \<in> set sizes. d < -1) \<or> length (filter (\<lambda>d. d = -1) sizes) > 1
           then Inl RuntimeError
         else if numel s = newsize \<or> (infer \<and> newsize > 0 \<and> numel s mod newsize = 0) then
           (if infer then
              (if newsize = 0 then Inl RuntimeError
               else Inr (map (\<lambda>d. if d = -1 then numel s div newsize else nat d) sizes))
            else Inr (map nat sizes))
         else Inl RuntimeError)"

text \<open>
  \<open>cat(tensors, dim=dim)\<close>: the tensors have the same number of dimensions and the
  same sizes outside \<open>dim\<close>, where the sizes add up.
\<close>

definition cat :: "shape list \<Rightarrow> nat \<Rightarrow> error + shape" where
  "cat ts axis =
     (case ts of
        [] \<Rightarrow> Inl RuntimeError
      | t # rest \<Rightarrow>
          if axis \<ge> length t then Inl IndexError
          else if \<forall>u \<in> set rest. length u = length t \<and> u[axis := 0] = t[axis := 0]
            then Inr (t[axis := sum_list (map (\<lambda>u. u ! axis) ts)])
          else Inl RuntimeError)"

text \<open>
  \<open>Transformer.forward(X, diagnoses, flat)\<close>, lines 144 to 164, on shapes. Unpacking
  \<open>X.shape\<close> into three names raises \<open>ValueError\<close> unless \<open>X\<close> has three dimensions.
  \<open>relu\<close>, the dropouts, \<open>exp\<close> and \<open>hardtanh\<close> keep the shape; \<open>T - 5\<close> is Python's
  integer subtraction.
\<close>

definition Transformer_forward ::
  "model \<Rightarrow> bool \<Rightarrow> shape \<Rightarrow> shape \<Rightarrow> shape \<Rightarrow> error + shape" where
  "Transformer_forward m training X diagnoses flat =
     (case X of
        [B, C, T] \<Rightarrow>
          seq (TransformerEncoder_forward (transformer m) X T) (\<lambda>trans_output.
          let X_final = trans_output in
          seq (Linear (model_D m) (diagnosis_size (model_cfg m)) diagnoses) (\<lambda>d1.
          seq (bn_forward training (bn_diagnosis_encoder (model_cfg m)) d1) (\<lambda>diagnoses_enc.
          seq (repeat_interleave (int T - 5) 0 flat) (\<lambda>r1.
          seq (repeat_interleave (int T - 5) 0 diagnoses_enc) (\<lambda>r2.
          seq (view [int B * (int T - 5), -1]
                 (permute_shape [0, 2, 1] (slice_from_shape 2 5 X_final))) (\<lambda>r3.
          seq (cat [r1, r2, r3] 1) (\<lambda>combined_features.
          seq (Linear (d_model (model_cfg m) + diagnosis_size (model_cfg m)
                         + no_flat_features m)
                 (last_linear_size (model_cfg m)) combined_features) (\<lambda>p.
          seq (bn_forward training (bn_point_last (model_cfg m)) p) (\<lambda>last_point.
          seq (Linear (last_linear_size (model_cfg m)) 1 last_point) (\<lambda>pf.
            view [int B, int T - 5] pf))))))))))
      | _ \<Rightarrow> Inl ValueError)"

section \<open>The loss\<close>

text \<open>
  Modelled from the spec: \<open>MSELoss\<close> and \<open>MSLELoss\<close> are defined in
  \<open>models/tpc_model.py\<close>. By the spec, the error of an element is the squared
  difference (\<open>mse\<close>) or the squared difference of the natural logarithms (\<open>msle\<close>); an
  element counts only where the mask is true; with \<open>sum_losses\<close> the masked errors of
  the whole batch are summed and divided by the number of valid elements; without it
  each sequence's masked errors are averaged over its valid length and these means are
  averaged over the batch. Tensors of shape \<open>B * T\<close> are lists of \<open>B\<close> rows.
\<close>

definition squared_error :: "real \<Rightarrow> real \<Rightarrow> real" where
  "squared_error y_hat y = (y_hat - y)\<^sup>2"

definition squared_log_error :: "real \<Rightarrow> real \<Rightarrow> real" where
  "squared_log_error y_hat y = (ln y_hat - ln y)\<^sup>2"

definition masked_row :: "(real \<Rightarrow> real \<Rightarrow> real) \<Rightarrow> real list \<Rightarrow> real list \<Rightarrow> bool list \<Rightarrow> real list" where
  "masked_row err y_hat y m =
     map (\<lambda>(a, b, valid). if valid then err a b else 0) (zip y_hat (zip y m))"

definition masked_errors ::
  "(real \<Rightarrow> real \<Rightarrow> real) \<Rightarrow> real list list \<Rightarrow> real list list \<Rightarrow> bool list list \<Rightarrow> real list list" where
  "masked_errors err y_hat y m =
     map (\<lambda>(a, b, mrow). masked_row err a b mrow) (zip y_hat (zip y m))"

definition masked_loss ::
  "(real \<Rightarrow> real \<Rightarrow> real) \<Rightarrow> real list list \<Rightarrow> real list list \<Rightarrow> bool list list \<Rightarrow>
   nat list \<Rightarrow> bool \<Rightarrow> real" where
  "masked_loss err y_hat y m seq_lengths sum_losses =
     (let errs = masked_errors err y_hat y m in
      if sum_losses
      then sum_list (map sum_list errs) / real (sum_list (map (\<lambda>mrow. length (filter (\<lambda>valid. valid) mrow)) m))
      else sum_list (map (\<lambda>(row, n). sum_list row / real n) (zip errs seq_lengths))
           / real (length errs))"

text \<open>
  Modelled from the spec: \<open>MSELoss\<close>, the masked loss of the squared differences, and
  \<open>MSLELoss\<close>, the masked loss of the squared differences of the logarithms.
\<close>

definition MSELoss :: "real list list \<Rightarrow> real list list \<Rightarrow> bool list list \<Rightarrow> nat list \<Rightarrow> bool \<Rightarrow> real" where
  "MSELoss = masked_loss squared_error"

definition MSLELoss :: "real list list \<Rightarrow> real list list \<Rightarrow> bool list list \<Rightarrow> nat list \<Rightarrow> bool \<Rightarrow> real" where
  "MSLELoss = masked_loss squared_log_error"

text \<open>
  \<open>Transformer.loss\<close>, lines 167 to 172. The mask arrives as a tensor of numbers and is
  cast to the boolean tensor type of the device; the cast maps every non-zero number to
  true on both devices. No branch assigns \<open>loss\<close> for a \<open>loss_type\<close> other than
  \<open>'msle'\<close> and \<open>'mse'\<close>, and \<open>return loss\<close> then raises \<open>UnboundLocalError\<close>.
\<close>

datatype device = Cpu | Cuda

datatype bool_tensor_type = BoolTensor | CudaBoolTensor

definition tensor_type :: "bool_tensor_type \<Rightarrow> int list list \<Rightarrow> bool list list" where
  "tensor_type ty m = map (map (\<lambda>x. x \<noteq> 0)) m"

definition loss ::
  "real list list \<Rightarrow> real list list \<Rightarrow> int list list \<Rightarrow> nat list \<Rightarrow> device \<Rightarrow> bool \<Rightarrow>
   string \<Rightarrow> error + real" where
  "loss y_hat y m seq_lengths dev sum_losses loss_type =
     (let bool_type = (if dev = Cuda then CudaBoolTensor else BoolTensor) in
      if loss_type = ''msle''
        then Inr (MSLELoss y_hat y (tensor_type bool_type m) seq_lengths sum_losses)
      else if loss_type = ''mse''
        then Inr (MSELoss y_hat y (tensor_type bool_type m) seq_lengths sum_losses)
      else Inl UnboundLocalError)"

section \<open>Calls\<close>

text \<open>
  A call of the positional module: \<open>forward\<close> reads \<open>self.pe\<close> and assigns only its local
  \<open>X\<close>, so the call returns the buffer as it was together with the result.
\<close>

definition PositionalEncoding_call ::
  "real tensor \<Rightarrow> real tensor \<Rightarrow> real tensor \<times> (error + real tensor)" where
  "PositionalEncoding_call pe X = (pe, PositionalEncoding_forward pe X)"

text \<open>Constructing the model and calling it once.\<close>

definition construct_and_forward ::
  "config \<Rightarrow> nat \<Rightarrow> nat \<Rightarrow> nat \<Rightarrow> bool \<Rightarrow> shape \<Rightarrow> shape \<Rightarrow> shape \<Rightarrow> error + shape" where
  "construct_and_forward c F D nff training X diagnoses flat =
     seq (Transformer_init c F D nff) (\<lambda>m. Transformer_forward m training X diagnoses flat)"

section \<open>Properties\<close>




lemma div_term_spec:
  assumes "0 < dm"
  shows "real pos * exp (real (2 * i) * (- ln 10000 / real dm))
         = real pos / 10000 powr (real (2 * i) / real dm)"
proof -
  have "exp (real (2 * i) * (- ln 10000 / real dm)) = exp (- (real (2 * i) / real dm * ln 10000))"
    by simp
  also have "\<dots> = inverse (exp (real (2 * i) / real dm * ln 10000))"
    by (rule exp_minus)
  also have "exp (real (2 * i) / real dm * ln 10000) = 10000 powr (real (2 * i) / real dm)"
    by (simp add: powr_def)
  finally show ?thesis by (simp add: divide_inverse)
qed

lemma broadcast_col_row: "broadcast_shapes [n, 1] [k] = Inr [n, k]"
  by (simp add: broadcast_shapes_def broadcast_dim_def)

lemma bc_index_col: "p < n \<Longrightarrow> bc_index [n, 1] [p, j] = [p, 0]"
  by (auto simp add: bc_index_def)

lemma bc_index_row: "j < k \<Longrightarrow> bc_index [k] [p, j] = [j]"
  by (auto simp add: bc_index_def)

lemma bc_index_mat: "p < n \<Longrightarrow> j < k \<Longrightarrow> bc_index [n, k] [p, j] = [p, j]"
  by (auto simp add: bc_index_def)

lemma bc_op_col_row:
  assumes "shape a = [n, 1]" "shape b = [k]"
  shows "\<exists>r. bc_op f a b = Inr r \<and> shape r = [n, k]
           \<and> (\<forall>p j. p < n \<longrightarrow> j < k \<longrightarrow> elem r [p, j] = f (elem a [p, 0]) (elem b [j]))"
proof -
  have "bc_op f a b = Inr \<lparr>shape = [n, k],
          elem = (\<lambda>ix. f (elem a (bc_index [n, 1] ix)) (elem b (bc_index [k] ix)))\<rparr>"
    unfolding bc_op_def assms broadcast_col_row by simp
  moreover have "bc_index [n, Suc 0] [p, j] = [p, 0]" if "p < n" for p j
    using bc_index_col [OF that] by simp
  ultimately show ?thesis
    by (simp add: bc_index_row)
qed

lemma permute_021_shape: "shape t = [a, b, c] \<Longrightarrow> shape (permute [0, 2, 1] t) = [a, c, b]"
  by (simp add: permute_def permute_shape_def)

lemma upt3: "[0..<3] = [0, 1, 2]"
  by (simp add: upt_rec)

lemma permute_021_elem: "elem (permute [0, 2, 1] t) [x, y, z] = elem t [x, z, y]"
  by (simp add: permute_def upt3 numeral_3_eq_3)

lemma unsqueeze_0_shape: "shape (unsqueeze 0 t) = 1 # shape t"
  by (simp add: unsqueeze_def)

lemma unsqueeze_0_elem: "elem (unsqueeze 0 t) (x # ix) = elem t ix"
  by (simp add: unsqueeze_def)

lemma setitem_cols_ok:
  assumes "shape t = [n, c]" "shape v = [n, (c - start + step - 1) div step]"
  shows "\<exists>r. setitem_cols start step t v = Inr r \<and> shape r = [n, c]
           \<and> (\<forall>p j. p < n \<longrightarrow> j < c \<longrightarrow> elem r [p, j] =
                 (if start \<le> j \<and> (j - start) mod step = 0
                  then elem v (bc_index (shape v) [p, (j - start) div step]) else elem t [p, j]))"
  using assms by (simp add: setitem_cols_def expand_to_def Let_def)

lemma arange_shape: "shape (arange 0 n 1) = [n]" "shape (arange 0 n 2) = [(n + 1) div 2]"
  by (simp_all add: arange_def)

lemma arange_elem: "elem (arange 0 n step) [j] = real (j * step)"
  by (simp add: arange_def)

lemma PositionalEncoding_init_2k:
  assumes "0 < k"
  shows "\<exists>pe. PositionalEncoding_init (2 * k) max_len = Inr pe \<and> shape pe = [1, 2 * k, max_len]
           \<and> (\<forall>pos i. pos < max_len \<longrightarrow> i < k \<longrightarrow>
                elem pe [0, 2 * i, pos] = sin (real pos * exp (real (2 * i) * (- ln 10000 / real (2 * k))))
              \<and> elem pe [0, 2 * i + 1, pos] = cos (real pos * exp (real (2 * i) * (- ln 10000 / real (2 * k)))))"
proof -
  define position where "position = unsqueeze 1 (arange 0 max_len 1)"
  define div_term where
    "div_term = tmap exp (tmap (\<lambda>x. x * (- ln 10000 / real (2 * k))) (arange 0 (2 * k) 2))"
  have sp: "shape position = [max_len, 1]"
    by (simp add: position_def unsqueeze_def arange_def)
  have sd: "shape div_term = [k]"
    by (simp add: div_term_def tmap_def arange_def)
  have ep: "elem position [p, 0] = real p" for p
    by (simp add: position_def unsqueeze_def arange_def)
  have ed: "elem div_term [j] = exp (real (2 * j) * (- ln 10000 / real (2 * k)))" for j
    by (simp add: div_term_def tmap_def arange_def mult.commute)
  from bc_op_col_row [OF sp sd, of "(*)"] obtain arg where
    arg: "bc_op (*) position div_term = Inr arg" "shape arg = [max_len, k]"
      "\<And>p j. p < max_len \<Longrightarrow> j < k \<Longrightarrow> elem arg [p, j] = elem position [p, 0] * elem div_term [j]"
    by blast
  have s0: "shape (zeros [max_len, 2 * k]) = [max_len, 2 * k]"
    by (simp add: zeros_def)
  have ss: "shape (tmap sin arg) = [max_len, (2 * k - 0 + 2 - 1) div 2]"
    using arg(2) by (simp add: tmap_def)
  from setitem_cols_ok [OF s0 ss] obtain pe1 where
    pe1: "setitem_cols 0 2 (zeros [max_len, 2 * k]) (tmap sin arg) = Inr pe1"
      "shape pe1 = [max_len, 2 * k]"
      "\<And>p j. p < max_len \<Longrightarrow> j < 2 * k \<Longrightarrow> elem pe1 [p, j] =
          (if 0 \<le> j \<and> (j - 0) mod 2 = 0
           then elem (tmap sin arg) (bc_index (shape (tmap sin arg)) [p, (j - 0) div 2])
           else elem (zeros [max_len, 2 * k]) [p, j])"
    by blast
  have sc: "shape (tmap cos arg) = [max_len, (2 * k - 1 + 2 - 1) div 2]"
    using arg(2) assms by (simp add: tmap_def)
  from setitem_cols_ok [OF pe1(2) sc] obtain pe2 where
    pe2: "setitem_cols 1 2 pe1 (tmap cos arg) = Inr pe2"
      "shape pe2 = [max_len, 2 * k]"
      "\<And>p j. p < max_len \<Longrightarrow> j < 2 * k \<Longrightarrow> elem pe2 [p, j] =
          (if 1 \<le> j \<and> (j - 1) mod 2 = 0
           then elem (tmap cos arg) (bc_index (shape (tmap cos arg)) [p, (j - 1) div 2])
           else elem pe1 [p, j])"
    by blast
  let ?pe = "permute [0, 2, 1] (unsqueeze 0 pe2)"
  have init: "PositionalEncoding_init (2 * k) max_len = Inr ?pe"
    using assms arg(1) pe1(1) pe2(1)
    by (simp add: PositionalEncoding_init_def Let_def seq_def position_def div_term_def)
  have shp: "shape ?pe = [1, 2 * k, max_len]"
    by (rule permute_021_shape) (simp add: unsqueeze_0_shape pe2(2))
  have vals: "elem ?pe [0, 2 * i, pos] = sin (real pos * exp (real (2 * i) * (- ln 10000 / real (2 * k))))
      \<and> elem ?pe [0, 2 * i + 1, pos] = cos (real pos * exp (real (2 * i) * (- ln 10000 / real (2 * k))))"
    if "pos < max_len" "i < k" for pos i
  proof -
    have a: "elem arg [pos, i] = real pos * exp (real (2 * i) * (- ln 10000 / real (2 * k)))"
      using arg(3) [OF that] by (simp only: ep ed)
    have bi: "bc_index [max_len, k] [pos, i] = [pos, i]"
      using that by (rule bc_index_mat)
    have i2: "2 * i < 2 * k" "2 * i + 1 < 2 * k" using that by simp_all
    have e1: "elem pe1 [pos, 2 * i] = sin (elem arg [pos, i])"
      using pe1(3) [OF that(1) i2(1)] bi by (simp add: tmap_def arg(2))
    have "elem pe2 [pos, 2 * i] = elem pe1 [pos, 2 * i]"
      using pe2(3) [OF that(1) i2(1)] by (cases i) (simp_all add: mod_Suc)
    then have even_ch: "elem pe2 [pos, 2 * i] = sin (elem arg [pos, i])"
      using e1 by simp
    have odd_ch: "elem pe2 [pos, 2 * i + 1] = cos (elem arg [pos, i])"
      using pe2(3) [OF that(1) i2(2)] bi by (simp add: tmap_def arg(2))
    show ?thesis
      by (simp only: permute_021_elem unsqueeze_0_elem even_ch odd_ch a)
  qed
  from init shp vals show ?thesis by blast
qed

lemma setitem_cols_mismatch:
  assumes "shape t = [n, c]" "shape v = [n', m]"
    "m \<noteq> (c - start + step - 1) div step" "m \<noteq> 1"
  shows "setitem_cols start step t v = Inl RuntimeError"
  using assms by (simp add: setitem_cols_def expand_to_def Let_def)

lemma PositionalEncoding_init_odd:
  assumes "1 \<le> k"
  shows "PositionalEncoding_init (2 * k + 1) max_len = Inl RuntimeError"
proof -
  define position where "position = unsqueeze 1 (arange 0 max_len 1)"
  define div_term where
    "div_term = tmap exp (tmap (\<lambda>x. x * (- ln 10000 / real (2 * k + 1))) (arange 0 (2 * k + 1) 2))"
  have sp: "shape position = [max_len, 1]"
    by (simp add: position_def unsqueeze_def arange_def)
  have sd: "shape div_term = [k + 1]"
    by (simp add: div_term_def tmap_def arange_def)
  from bc_op_col_row [OF sp sd, of "(*)"] obtain arg where
    arg: "bc_op (*) position div_term = Inr arg" "shape arg = [max_len, k + 1]"
    by blast
  have s0: "shape (zeros [max_len, 2 * k + 1]) = [max_len, 2 * k + 1]"
    by (simp add: zeros_def)
  have ss: "shape (tmap sin arg) = [max_len, (2 * k + 1 - 0 + 2 - 1) div 2]"
    using arg(2) by (simp add: tmap_def)
  from setitem_cols_ok [OF s0 ss] obtain pe1 where
    pe1: "setitem_cols 0 2 (zeros [max_len, 2 * k + 1]) (tmap sin arg) = Inr pe1"
      "shape pe1 = [max_len, 2 * k + 1]"
    by blast
  have sc: "shape (tmap cos arg) = [max_len, k + 1]"
    using arg(2) by (simp add: tmap_def)
  have "setitem_cols 1 2 pe1 (tmap cos arg) = Inl RuntimeError"
    by (rule setitem_cols_mismatch [OF pe1(2) sc]) (use assms in simp_all)
  then show ?thesis
    using arg(1) pe1(1)
    by (simp add: PositionalEncoding_init_def Let_def seq_def position_def div_term_def)
qed

lemma PositionalEncoding_init_one:
  "\<exists>pe. PositionalEncoding_init 1 max_len = Inr pe \<and> shape pe = [1, 1, max_len]"
  by (simp add: PositionalEncoding_init_def Let_def seq_def zeros_def arange_def unsqueeze_def tmap_def
      bc_op_def broadcast_shapes_def broadcast_dim_def setitem_cols_def expand_to_def
      permute_def permute_shape_def)

lemma PositionalEncoding_init_zero:
  "PositionalEncoding_init 0 max_len = Inl ZeroDivisionError"
  by (simp add: PositionalEncoding_init_def Let_def seq_def)

lemma broadcast_batch: "broadcast_shapes [B, dm, T] [1, dm, T] = Inr [B, dm, T]"
  by (simp add: broadcast_shapes_def broadcast_dim_def)

lemma bc_index_3: "b < B \<Longrightarrow> c < dm \<Longrightarrow> t < T \<Longrightarrow> bc_index [B, dm, T] [b, c, t] = [b, c, t]"
  by (auto simp add: bc_index_def)

lemma bc_index_3_batch: "c < dm \<Longrightarrow> t < T \<Longrightarrow> bc_index [1, dm, T] [b, c, t] = [0, c, t]"
  by (auto simp add: bc_index_def)

lemma PositionalEncoding_forward_add:
  assumes "shape pe = [1, dm, max_len]" "shape X = [B, dm, T]" "T \<le> max_len"
  shows "\<exists>Y. PositionalEncoding_forward pe X = Inr Y \<and> shape Y = [B, dm, T]
           \<and> (\<forall>b c t. b < B \<longrightarrow> c < dm \<longrightarrow> t < T \<longrightarrow>
                 elem Y [b, c, t] = elem X [b, c, t] + elem pe [0, c, t])"
proof -
  have sl: "shape (slice_to 2 (shape X ! 2) pe) = [1, dm, T]"
    using assms by (simp add: slice_to_def slice_to_shape_def min_def)
  have "PositionalEncoding_forward pe X =
      Inr \<lparr>shape = [B, dm, T],
           elem = (\<lambda>ix. elem X (bc_index [B, dm, T] ix) + elem pe (bc_index [1, dm, T] ix))\<rparr>"
    unfolding PositionalEncoding_forward_def bc_op_def sl
    by (simp add: assms broadcast_batch [unfolded One_nat_def] slice_to_def)
  then show ?thesis
    by (simp add: bc_index_3 bc_index_3_batch [unfolded One_nat_def])
qed


lemma causal_mask_shape: "shape (causal_mask T) = [T, T]"
  by (simp add: causal_mask_def Let_def masked_fill_def to_float_def tmap_def transpose01_def
      permute_def permute_shape_def triu_def ones_def)




lemma PositionalEncoding_forward_shape_eq:
  "map_sum id shape (PositionalEncoding_forward pe X)
   = PositionalEncoding_forward_shape (shape pe) (shape X)"
  by (simp add: PositionalEncoding_forward_def PositionalEncoding_forward_shape_def bc_op_def
      slice_to_def split: sum.splits)

lemma nat_shape_cases:
  fixes dm :: nat
  obtains "dm = 0" | "dm = 1" | k where "0 < k" "dm = 2 * k" | k where "1 \<le> k" "dm = 2 * k + 1"
proof (cases "even dm")
  case True
  then obtain k where k: "dm = 2 * k" by (elim evenE)
  show ?thesis
  proof (cases "k = 0")
    case True with k that(1) show ?thesis by simp
  next
    case False with k that(3) show ?thesis by simp
  qed
next
  case False
  then obtain k where k: "dm = 2 * k + 1" by (elim oddE)
  show ?thesis
  proof (cases "k = 0")
    case True with k that(2) show ?thesis by simp
  next
    case False with k that(4) [of k] show ?thesis by simp
  qed
qed

lemma PositionalEncoding_init_shape:
  assumes "PositionalEncoding_init dm max_len = Inr pe"
  shows "shape pe = [1, dm, max_len]"
proof (cases dm rule: nat_shape_cases)
  case 1
  with assms show ?thesis by (simp add: PositionalEncoding_init_zero)
next
  case 2
  with assms PositionalEncoding_init_one [of max_len] show ?thesis by auto
next
  case (3 k)
  with assms PositionalEncoding_init_2k [of k max_len] show ?thesis by auto
next
  case (4 k)
  with assms PositionalEncoding_init_odd [of k max_len] show ?thesis by simp
qed

lemma seq_Inr: "seq r f = Inr y \<Longrightarrow> \<exists>x. r = Inr x \<and> f x = Inr y"
  by (cases r) (simp_all add: seq_def)

lemma seq_Inr_eq [simp]: "seq (Inr x) f = f x"
  by (simp add: seq_def)

lemma seq_Inl_eq [simp]: "seq (Inl e) f = Inl e"
  by (simp add: seq_def)

lemma TransformerEncoder_init_fields:
  assumes "TransformerEncoder_init input_size dm num_layers num_heads ff p = Inr enc"
  shows "enc_d_model enc = dm \<and> enc_input_size enc = input_size
         \<and> enc_num_layers enc = num_layers \<and> shape (enc_pe enc) = [1, dm, max_len_default]"
proof -
  from assms obtain pe where pe: "PositionalEncoding_init dm max_len_default = Inr pe"
    and r: "seq (TransformerEncoderLayer_init dm num_heads p) (\<lambda>_.
       Inr \<lparr>enc_d_model = dm, enc_input_size = input_size,
            enc_num_layers = num_layers, enc_pe = pe\<rparr>) = Inr enc"
    unfolding TransformerEncoder_init_def by (blast dest: seq_Inr)
  from r have "enc = \<lparr>enc_d_model = dm, enc_input_size = input_size,
            enc_num_layers = num_layers, enc_pe = pe\<rparr>"
    by (auto dest: seq_Inr)
  with PositionalEncoding_init_shape [OF pe] show ?thesis by simp
qed

lemma TransformerEncoder_init_ok:
  assumes "even dm" "0 < dm" "0 < num_heads" "num_heads dvd dm" "0 \<le> p" "p \<le> 1"
  shows "\<exists>enc. TransformerEncoder_init input_size dm num_layers num_heads ff p = Inr enc"
proof -
  from assms(1,2) obtain k where "0 < k" "dm = 2 * k" by (auto elim: evenE)
  with PositionalEncoding_init_2k [of k max_len_default] obtain pe where
    "PositionalEncoding_init dm max_len_default = Inr pe" by auto
  moreover have "TransformerEncoderLayer_init dm num_heads p = Inr ()"
    using assms by (auto simp add: TransformerEncoderLayer_init_def Dropout_init_def)
  ultimately show ?thesis
    by (simp add: TransformerEncoder_init_def)
qed

lemma PositionalEncoding_forward_shape_ok:
  assumes "T \<le> max_len"
  shows "PositionalEncoding_forward_shape [1, dm, max_len] [B, dm, T] = Inr [B, dm, T]"
  using assms
  by (simp add: PositionalEncoding_forward_shape_def slice_to_shape_def min_def
      broadcast_batch [unfolded One_nat_def])

lemma PositionalEncoding_forward_shape_too_long:
  assumes "max_len < T" "2 \<le> max_len"
  shows "PositionalEncoding_forward_shape [1, dm, max_len] [B, dm, T] = Inl RuntimeError"
  using assms
  by (simp add: PositionalEncoding_forward_shape_def slice_to_shape_def min_def
      broadcast_shapes_def broadcast_dim_def)

lemma TransformerEncoder_forward_ok:
  assumes "enc_d_model enc = dm" "enc_input_size enc = C"
    "shape (enc_pe enc) = [1, dm, max_len]" "1 \<le> T" "T \<le> max_len"
  shows "TransformerEncoder_forward enc [B, C, T] T = Inr [B, dm, T]"
  using assms
  by (simp add: TransformerEncoder_forward_def Conv1d_k1_def
      PositionalEncoding_forward_shape_ok [unfolded One_nat_def]
      permute_shape_def nn_TransformerEncoder_def causal_mask_shape)

lemma TransformerEncoder_forward_too_long:
  assumes "enc_d_model enc = dm" "shape (enc_pe enc) = [1, dm, max_len]"
    "max_len < T" "2 \<le> max_len"
  shows "TransformerEncoder_forward enc [B, C, T] T' = Inl RuntimeError"
  using assms
  by (simp add: TransformerEncoder_forward_def Conv1d_k1_def
      PositionalEncoding_forward_shape_too_long [unfolded One_nat_def])


lemma sum_list_all_equal:
  assumes "\<forall>x \<in> set xs. f x = (e::real)"
  shows "sum_list (map f xs) = e * real (length xs)"
  using assms by (induction xs) (simp_all add: algebra_simps)





lemma Transformer_init_fields:
  assumes "Transformer_init c F D S = Inr m"
  shows "model_cfg m = c \<and> model_D m = D \<and> no_flat_features m = S \<and> model_F m = F
         \<and> TransformerEncoder_init (2 * F + 2) (d_model c) (n_layers c) (n_heads c)
              (feedforward_size c) (trans_dropout_rate c) = Inr (transformer m)"
proof -
  from assms obtain enc where
    enc: "TransformerEncoder_init (2 * F + 2) (d_model c) (n_layers c) (n_heads c)
            (feedforward_size c) (trans_dropout_rate c) = Inr enc"
    and m: "m = \<lparr>model_cfg = c, model_F = F, model_D = D, no_flat_features = S,
            transformer = enc\<rparr>"
    unfolding Transformer_init_def by (fastforce dest!: seq_Inr)
  then show ?thesis by simp
qed

lemma Transformer_init_ok:
  assumes "even (d_model c)" "0 < d_model c" "0 < n_heads c" "n_heads c dvd d_model c"
    "0 \<le> trans_dropout_rate c" "trans_dropout_rate c \<le> 1"
    "0 \<le> main_dropout_rate c" "main_dropout_rate c \<le> 1"
  shows "\<exists>m. Transformer_init c F D S = Inr m"
proof -
  from TransformerEncoder_init_ok [OF assms(1-6)] obtain enc where
    "TransformerEncoder_init (2 * F + 2) (d_model c) (n_layers c) (n_heads c)
       (feedforward_size c) (trans_dropout_rate c) = Inr enc" by blast
  then show ?thesis
    using assms(5-8) by (simp add: Transformer_init_def Dropout_init_def)
qed

lemma Linear_ok: "Linear n k [r, n] = Inr [r, k]"
  by (simp add: Linear_def)

lemma bn_forward_ok:
  assumes "training \<and> r = 1 \<longrightarrow> (\<forall>n. bn \<noteq> BatchNorm1d n)"
    "\<forall>n. bn = BatchNorm1d n \<longrightarrow> n = k"
  shows "bn_forward training bn [r, k] = Inr [r, k]"
  using assms by (cases bn)
      (auto simp add: bn_forward_def EmptyModule_forward_def MyBatchNorm1d_forward_def
        BatchNorm1d_forward_def)

lemma bn_diagnosis_encoder_cases:
  "(batchnorm c \<noteq> ''default'' \<longrightarrow> (\<forall>n. bn_diagnosis_encoder c \<noteq> BatchNorm1d n))
   \<and> (\<forall>n. bn_diagnosis_encoder c = BatchNorm1d n \<longrightarrow> n = diagnosis_size c)"
  by (simp add: bn_diagnosis_encoder_def)

lemma bn_point_last_cases:
  "(batchnorm c \<noteq> ''default'' \<longrightarrow> (\<forall>n. bn_point_last c \<noteq> BatchNorm1d n))
   \<and> (\<forall>n. bn_point_last c = BatchNorm1d n \<longrightarrow> n = last_linear_size c)"
  by (simp add: bn_point_last_def)

lemma repeat_interleave_ok:
  "0 \<le> k \<Longrightarrow> repeat_interleave k 0 [r, n] = Inr [r * nat k, n]"
  by (simp add: repeat_interleave_def)

lemma repeat_interleave_negative:
  "k < 0 \<Longrightarrow> \<exists>e. repeat_interleave k 0 s = Inl e"
  by (simp add: repeat_interleave_def)

lemma view_infer_ok:
  assumes "0 < r" "numel s mod r = 0"
  shows "view [int r, -1] s = Inr [r, numel s div r]"
  using assms by (auto simp add: view_def Let_def)

lemma view_infer_empty: "\<exists>e. view [0, -1] s = Inl e"
  by (simp add: view_def numel_def Let_def)

lemma view_exact: "view [int B, int T] [B * T, 1] = Inr [B, T]"
  by (simp add: view_def numel_def Let_def)

lemma view_result:
  assumes "view [int B, k] s = Inr P"
  shows "0 \<le> k \<and> P = [B, nat k] \<or> k = -1"
  using assms by (auto simp add: view_def numel_def Let_def split: if_splits)

lemma cat_ok: "cat [[r, a], [r, b], [r, c]] 1 = Inr [r, a + b + c]"
  by (simp add: cat_def)

lemma view_trimmed:
  assumes "1 \<le> B" "5 < T"
  shows "view [int B * (int T - 5), -1] [B, T - 5, dm] = Inr [B * (T - 5), dm]"
proof -
  have r: "int B * (int T - 5) = int (B * (T - 5))"
    using assms by (simp add: of_nat_diff)
  have n: "numel [B, T - 5, dm] = B * (T - 5) * dm"
    by (simp add: numel_def)
  have pos: "0 < B * (T - 5)"
    using assms by simp
  show ?thesis
    unfolding r using view_infer_ok [OF pos, of "[B, T - 5, dm]"] pos
    by (simp add: n)
qed

lemma Transformer_forward_shape:
  assumes init: "Transformer_init c F D S = Inr m"
    and B: "1 \<le> B" and T: "5 < T" "T \<le> max_len_default"
    and bn: "training \<and> batchnorm c = ''default'' \<longrightarrow> 2 \<le> B"
  shows "Transformer_forward m training [B, 2 * F + 2, T] [B, D] [B, S] = Inr [B, T - 5]"
proof -
  note f = Transformer_init_fields [OF init]
  from f have fc: "model_cfg m = c" "model_D m = D" "no_flat_features m = S"
    and fe: "TransformerEncoder_init (2 * F + 2) (d_model c) (n_layers c) (n_heads c)
              (feedforward_size c) (trans_dropout_rate c) = Inr (transformer m)"
    by simp_all
  note e = TransformerEncoder_init_fields [OF fe]
  define n where "n = B * (T - 5)"
  have enc: "TransformerEncoder_forward (transformer m) [B, 2 * F + 2, T] T = Inr [B, d_model c, T]"
    using e T by (intro TransformerEncoder_forward_ok [where max_len = max_len_default]) simp_all
  have k: "(0::int) \<le> int T - 5" "nat (int T - 5) = T - 5"
    using T by simp_all
  have l1: "Linear D (diagnosis_size c) [B, D] = Inr [B, diagnosis_size c]"
    by (rule Linear_ok)
  have bn1: "bn_forward training (bn_diagnosis_encoder c) [B, diagnosis_size c]
      = Inr [B, diagnosis_size c]"
    using bn B bn_diagnosis_encoder_cases [of c] by (intro bn_forward_ok) auto
  have r1: "repeat_interleave (int T - 5) 0 [B, S] = Inr [n, S]"
    using repeat_interleave_ok [OF k(1)] k(2) by (simp add: n_def)
  have r2: "repeat_interleave (int T - 5) 0 [B, diagnosis_size c] = Inr [n, diagnosis_size c]"
    using repeat_interleave_ok [OF k(1)] k(2) by (simp add: n_def)
  have sl: "permute_shape [0, 2, 1] (slice_from_shape 2 5 [B, d_model c, T]) = [B, T - 5, d_model c]"
    by (simp add: slice_from_shape_def permute_shape_def)
  have r3: "view [int B * (int T - 5), -1] [B, T - 5, d_model c] = Inr [n, d_model c]"
    using view_trimmed [OF B T(1)] by (simp add: n_def)
  have ct: "cat [[n, S], [n, diagnosis_size c], [n, d_model c]] 1
      = Inr [n, S + diagnosis_size c + d_model c]"
    by (rule cat_ok)
  have l2: "Linear (d_model c + diagnosis_size c + S) (last_linear_size c)
      [n, S + diagnosis_size c + d_model c] = Inr [n, last_linear_size c]"
    using Linear_ok [of "S + diagnosis_size c + d_model c" "last_linear_size c" n]
    by (simp add: add.commute add.left_commute)
  have rows: "n = 1 \<longrightarrow> B = 1"
    by (auto simp add: n_def)
  have bn2: "bn_forward training (bn_point_last c) [n, last_linear_size c]
      = Inr [n, last_linear_size c]"
    using bn B rows bn_point_last_cases [of c] by (intro bn_forward_ok) auto
  have l3: "Linear (last_linear_size c) 1 [n, last_linear_size c] = Inr [n, 1]"
    by (rule Linear_ok)
  have v2: "view [int B, int T - 5] [n, 1] = Inr [B, T - 5]"
    using view_exact [of B "T - 5"] T by (simp add: of_nat_diff n_def)
  show ?thesis
    unfolding Transformer_forward_def
    by (simp only: list.case fc enc seq_Inr_eq Let_def l1 bn1 r1 r2 sl r3 ct l2 bn2 l3 v2)
qed

lemma isl_seq_step: "(\<And>x. isl (f x)) \<Longrightarrow> isl (seq r f)"
  by (cases r) (simp_all add: seq_def)

lemma isl_seq_first: "isl r \<Longrightarrow> isl (seq r f)"
  by (cases r) (simp_all add: seq_def)

lemma isl_repeat_interleave_negative: "k < 0 \<Longrightarrow> isl (repeat_interleave k 0 s)"
  by (simp add: repeat_interleave_def)

lemma isl_view_infer_empty: "isl (view [0, -1] s)"
  by (simp add: view_def numel_def Let_def)

lemma Transformer_forward_short:
  assumes "T \<le> 5"
  shows "isl (Transformer_forward m training [B, C, T] diagnoses flat)"
proof (cases "T < 5")
  case True
  then have "int T - 5 < 0" by simp
  then have "isl (repeat_interleave (int T - 5) 0 flat)"
    by (rule isl_repeat_interleave_negative)
  then show ?thesis
    unfolding Transformer_forward_def list.case Let_def
    by (intro isl_seq_step isl_seq_first)
next
  case False
  with assms have T5: "int B * (int T - 5) = 0" by simp
  show ?thesis
    unfolding Transformer_forward_def list.case Let_def T5
    by (intro isl_seq_step isl_seq_first isl_view_infer_empty)
qed


lemma Transformer_forward_result:
  assumes "Transformer_forward m training X diagnoses flat = Inr P"
  shows "\<exists>B C T. X = [B, C, T] \<and> 6 \<le> T \<and> P = [B, T - 5]"
proof -
  from assms obtain B C T where X: "X = [B, C, T]"
    by (auto simp add: Transformer_forward_def split: list.splits)
  have T: "6 \<le> T"
  proof (rule ccontr)
    assume "\<not> 6 \<le> T"
    then have "T \<le> 5" by simp
    from Transformer_forward_short [OF this, of m training B C diagnoses flat] assms X
    show False by simp
  qed
  from assms obtain pf where "view [int B, int T - 5] pf = Inr P"
    unfolding X Transformer_forward_def list.case Let_def
    by (blast dest: seq_Inr)
  from view_result [OF this] T have "P = [B, T - 5]"
    by auto
  with X T show ?thesis by blast
qed

lemma Transformer_forward_T5:
  assumes init: "Transformer_init c F D S = Inr m"
    and bn: "training \<and> batchnorm c = ''default'' \<longrightarrow> 2 \<le> B"
  shows "Transformer_forward m training [B, 2 * F + 2, 5] [B, D] [B, S] = Inl RuntimeError"
proof -
  note f = Transformer_init_fields [OF init]
  from f have fc: "model_cfg m = c" "model_D m = D" "no_flat_features m = S"
    and fe: "TransformerEncoder_init (2 * F + 2) (d_model c) (n_layers c) (n_heads c)
              (feedforward_size c) (trans_dropout_rate c) = Inr (transformer m)"
    by simp_all
  note e = TransformerEncoder_init_fields [OF fe]
  have enc: "TransformerEncoder_forward (transformer m) [B, 2 * F + 2, 5] 5 = Inr [B, d_model c, 5]"
    using e
    by (intro TransformerEncoder_forward_ok [where max_len = max_len_default])
      (simp_all add: max_len_default_def)
  have l1: "Linear D (diagnosis_size c) [B, D] = Inr [B, diagnosis_size c]"
    by (rule Linear_ok)
  have bn1: "bn_forward training (bn_diagnosis_encoder c) [B, diagnosis_size c]
      = Inr [B, diagnosis_size c]"
    using bn bn_diagnosis_encoder_cases [of c] by (intro bn_forward_ok) auto
  have r1: "repeat_interleave (int 5 - 5) 0 [B, S] = Inr [0, S]"
    by (simp add: repeat_interleave_def)
  have r2: "repeat_interleave (int 5 - 5) 0 [B, diagnosis_size c] = Inr [0, diagnosis_size c]"
    by (simp add: repeat_interleave_def)
  have r3: "view [int B * (int 5 - 5), -1] s = Inl RuntimeError" for s
    by (simp add: view_def numel_def Let_def)
  show ?thesis
    unfolding Transformer_forward_def
    by (simp only: list.case fc enc seq_Inr_eq seq_Inl_eq Let_def l1 bn1 r1 r2 r3)
qed

lemma cfg0_init: "\<exists>m. Transformer_init cfg0 F D S = Inr m"
  by (rule Transformer_init_ok) (simp_all add: cfg0_def)

section \<open>The claims\<close>











text \<open>
  Claim C5. The encoder is constructed with a positional table of \<open>14 * 24\<close> columns;
  for every batch whose time dimension exceeds the table's length the encoder's forward
  call fails with the library's size-mismatch error, whatever the other dimensions.
\<close>

theorem encoder_fails_beyond_max_len:
  assumes "TransformerEncoder_init input_size dm num_layers num_heads ff p = Inr enc"
    and "shape (enc_pe enc) ! 2 < T"
  shows "shape (enc_pe enc) ! 2 = max_len_default
    \<and> TransformerEncoder_forward enc [B, C, T] T' = Inl RuntimeError"
proof -
  note e = TransformerEncoder_init_fields [OF assms(1)]
  then have l: "shape (enc_pe enc) ! 2 = max_len_default"
    by simp
  have "TransformerEncoder_forward enc [B, C, T] T' = Inl RuntimeError"
    using e assms(2) l
    by (intro TransformerEncoder_forward_too_long [where max_len = max_len_default])
      (simp_all add: max_len_default_def)
  with l show ?thesis by simp
qed

theorem encoder_fails_beyond_max_len_witness:
  "\<exists>enc. TransformerEncoder_init 8 8 1 2 64 (1 / 10) = Inr enc
     \<and> shape (enc_pe enc) ! 2 = 336
     \<and> TransformerEncoder_forward enc [2, 8, 337] 337 = Inl RuntimeError"
proof -
  from TransformerEncoder_init_ok [of 8 2 "1 / 10" 8 1 64] obtain enc where
    enc: "TransformerEncoder_init 8 8 1 2 64 (1 / 10) = Inr enc"
    by auto
  have "shape (enc_pe enc) ! 2 < 337"
    using TransformerEncoder_init_fields [OF enc] by (simp add: max_len_default_def)
  from encoder_fails_beyond_max_len [OF enc this, of 2 8 337] enc show ?thesis
    by (auto simp add: max_len_default_def)
qed

text \<open>
  Claim C6. For an even \<open>d_model > 0\<close> the table built at construction has shape
  \<open>1 * d_model * max_len\<close> and holds, at every position \<open>pos < max_len\<close>,
  \<open>sin (pos / 10000 ^ (2i / d_model))\<close> in the even channel \<open>2i\<close> and the cosine of the
  same argument in the channel \<open>2i + 1\<close>. The forward call on \<open>X\<close> of shape
  \<open>B * d_model * T\<close> with \<open>T \<le> max_len\<close> returns \<open>X\<close> plus the first \<open>T\<close> columns of
  the table, the same for every batch entry, and a second call on the same input, made
  after the first, returns the same result.
\<close>

theorem positional_table_and_add:
  assumes "even dm" "0 < dm"
  shows "\<exists>pe. PositionalEncoding_init dm max_len = Inr pe \<and> shape pe = [1, dm, max_len]
    \<and> (\<forall>pos i. pos < max_len \<longrightarrow> 2 * i < dm \<longrightarrow>
          elem pe [0, 2 * i, pos] = sin (real pos / 10000 powr (real (2 * i) / real dm))
        \<and> elem pe [0, 2 * i + 1, pos] = cos (real pos / 10000 powr (real (2 * i) / real dm)))
    \<and> (\<forall>X B T. shape X = [B, dm, T] \<longrightarrow> T \<le> max_len \<longrightarrow>
          (\<exists>Y. PositionalEncoding_forward pe X = Inr Y \<and> shape Y = [B, dm, T]
             \<and> (\<forall>b c t. b < B \<longrightarrow> c < dm \<longrightarrow> t < T \<longrightarrow>
                   elem Y [b, c, t] = elem X [b, c, t] + elem pe [0, c, t])
             \<and> snd (PositionalEncoding_call (fst (PositionalEncoding_call pe X)) X) = Inr Y))"
proof -
  from assms obtain k where k: "0 < k" "dm = 2 * k"
    by (auto elim: evenE)
  from PositionalEncoding_init_2k [OF k(1), of max_len] obtain pe where
    pe: "PositionalEncoding_init dm max_len = Inr pe" "shape pe = [1, dm, max_len]"
    and vals: "\<And>pos i. pos < max_len \<Longrightarrow> i < k \<Longrightarrow>
        elem pe [0, 2 * i, pos] = sin (real pos * exp (real (2 * i) * (- ln 10000 / real dm)))
      \<and> elem pe [0, 2 * i + 1, pos] = cos (real pos * exp (real (2 * i) * (- ln 10000 / real dm)))"
    unfolding k(2) by blast
  have table: "elem pe [0, 2 * i, pos] = sin (real pos / 10000 powr (real (2 * i) / real dm))
        \<and> elem pe [0, 2 * i + 1, pos] = cos (real pos / 10000 powr (real (2 * i) / real dm))"
    if "pos < max_len" "2 * i < dm" for pos i
  proof -
    from that(2) k(2) have "i < k" by simp
    from vals [OF that(1) this] show ?thesis
      by (simp only: div_term_spec [OF assms(2)])
  qed
  have add: "\<exists>Y. PositionalEncoding_forward pe X = Inr Y \<and> shape Y = [B, dm, T]
             \<and> (\<forall>b c t. b < B \<longrightarrow> c < dm \<longrightarrow> t < T \<longrightarrow>
                   elem Y [b, c, t] = elem X [b, c, t] + elem pe [0, c, t])
             \<and> snd (PositionalEncoding_call (fst (PositionalEncoding_call pe X)) X) = Inr Y"
    if "shape X = [B, dm, T]" "T \<le> max_len" for X B T
    using PositionalEncoding_forward_add [OF pe(2) that]
    by (auto simp add: PositionalEncoding_call_def)
  from pe table add show ?thesis by blast
qed

theorem positional_table_and_add_witness:
  "\<exists>pe. PositionalEncoding_init 4 3 = Inr pe
     \<and> elem pe [0, 2, 1] = sin (1 / 10000 powr (2 / 4))
     \<and> elem pe [0, 3, 1] = cos (1 / 10000 powr (2 / 4))
     \<and> (\<exists>Y. PositionalEncoding_forward pe (ones [2, 4, 3]) = Inr Y
           \<and> elem Y [1, 2, 1] = 1 + elem pe [0, 2, 1])"
proof -
  have "even (4::nat)" "0 < (4::nat)"
    by simp_all
  from positional_table_and_add [OF this, of 3] obtain pe where
    pe: "PositionalEncoding_init 4 3 = Inr pe"
    and table: "\<forall>pos i. pos < 3 \<longrightarrow> 2 * i < 4 \<longrightarrow>
          elem pe [0, 2 * i, pos] = sin (real pos / 10000 powr (real (2 * i) / real 4))
        \<and> elem pe [0, 2 * i + 1, pos] = cos (real pos / 10000 powr (real (2 * i) / real 4))"
    and add: "\<forall>X B T. shape X = [B, 4, T] \<longrightarrow> T \<le> 3 \<longrightarrow>
          (\<exists>Y. PositionalEncoding_forward pe X = Inr Y \<and> shape Y = [B, 4, T]
             \<and> (\<forall>b c t. b < B \<longrightarrow> c < 4 \<longrightarrow> t < T \<longrightarrow>
                   elem Y [b, c, t] = elem X [b, c, t] + elem pe [0, c, t])
             \<and> snd (PositionalEncoding_call (fst (PositionalEncoding_call pe X)) X) = Inr Y)"
    by blast
  from table [rule_format, of 1 1] have t: "elem pe [0, 2, 1] = sin (1 / 10000 powr (2 / 4))"
    "elem pe [0, 3, 1] = cos (1 / 10000 powr (2 / 4))"
    by simp_all
  have "shape (ones [2, 4, 3]) = [2, 4, 3]"
    by (simp add: ones_def)
  from add [rule_format, OF this] obtain Y where
    Y: "PositionalEncoding_forward pe (ones [2, 4, 3]) = Inr Y"
      "\<forall>b c t. b < 2 \<longrightarrow> c < 4 \<longrightarrow> t < 3 \<longrightarrow>
          elem Y [b, c, t] = elem (ones [2, 4, 3]) [b, c, t] + elem pe [0, c, t]"
    by auto
  from Y(2) [rule_format, of 1 2 1] have "elem Y [1, 2, 1] = 1 + elem pe [0, 2, 1]"
    by (simp add: ones_def)
  with pe t Y(1) show ?thesis by blast
qed

text \<open>
  Claim C7. A call of the loss with a \<open>loss_type\<close> other than \<open>'mse'\<close> and \<open>'msle'\<close>
  fails with an error and returns no value; \<open>'mse'\<close> gives the masked loss of the
  squared differences and \<open>'msle'\<close> the masked loss of the squared differences of the
  logarithms, both on the mask cast to booleans.
\<close>

theorem loss_dispatch:
  "(loss_type \<notin> {''mse'', ''msle''} \<longrightarrow>
      loss y_hat y m seq_lengths dev sum_losses loss_type = Inl UnboundLocalError)
   \<and> loss y_hat y m seq_lengths dev sum_losses ''mse''
      = Inr (masked_loss (\<lambda>a b. (a - b)\<^sup>2) y_hat y (map (map (\<lambda>x. x \<noteq> 0)) m)
               seq_lengths sum_losses)
   \<and> loss y_hat y m seq_lengths dev sum_losses ''msle''
      = Inr (masked_loss (\<lambda>a b. (ln a - ln b)\<^sup>2) y_hat y (map (map (\<lambda>x. x \<noteq> 0)) m)
               seq_lengths sum_losses)"
proof -
  have "squared_error = (\<lambda>a b. (a - b)\<^sup>2)" "squared_log_error = (\<lambda>a b. (ln a - ln b)\<^sup>2)"
    by (simp_all add: fun_eq_iff squared_error_def squared_log_error_def)
  then show ?thesis
    by (simp add: loss_def MSELoss_def MSLELoss_def tensor_type_def)
qed

theorem loss_dispatch_witness:
  "loss [[3]] [[1]] [[1]] [1] Cpu False ''mae'' = Inl UnboundLocalError
   \<and> loss [[3]] [[1]] [[1]] [1] Cpu False ''mse'' = Inr 4
   \<and> loss [[exp 2]] [[1]] [[1]] [1] Cuda True ''msle'' = Inr 4"
proof -
  have "loss [[3]] [[1]] [[1]] [1] Cpu False ''mae'' = Inl UnboundLocalError"
    using loss_dispatch [of "''mae''" "[[3]]" "[[1]]" "[[1]]" "[1]" Cpu False] by simp
  moreover have "loss [[3]] [[1]] [[1]] [1] Cpu False ''mse'' = Inr 4"
    using loss_dispatch [of "''mae''" "[[3]]" "[[1]]" "[[1]]" "[1]" Cpu False]
    by (simp add: masked_loss_def masked_errors_def masked_row_def)
  moreover have "loss [[exp 2]] [[1]] [[1]] [1] Cuda True ''msle'' = Inr 4"
    using loss_dispatch [of "''mae''" "[[exp 2]]" "[[1]]" "[[1]]" "[1]" Cuda True]
    by (simp add: masked_loss_def masked_errors_def masked_row_def)
  ultimately show ?thesis by simp
qed

text \<open>
  Claim C8. A \<open>batchnorm\<close> string outside the four recognised selectors installs the
  pass-through module at both stages; \<open>'mybatchnorm'\<close> and \<open>'low_momentum'\<close> install the
  custom batch norm at both stages, with momentum 0.01 for \<open>'low_momentum'\<close> and 0.1 for
  \<open>'mybatchnorm'\<close>; \<open>'default'\<close> installs the standard batch norm at both stages;
  \<open>'pointonly'\<close> installs the custom batch norm at the point stage only.
\<close>

theorem batchnorm_dispatch:
  "(batchnorm c \<notin> {''mybatchnorm'', ''low_momentum'', ''default'', ''pointonly''} \<longrightarrow>
      bn_diagnosis_encoder c = EmptyModule \<and> bn_point_last c = EmptyModule)
   \<and> (batchnorm c = ''mybatchnorm'' \<longrightarrow>
      bn_diagnosis_encoder c = MyBatchNorm1d (diagnosis_size c) 0.1
      \<and> bn_point_last c = MyBatchNorm1d (last_linear_size c) 0.1)
   \<and> (batchnorm c = ''low_momentum'' \<longrightarrow>
      bn_diagnosis_encoder c = MyBatchNorm1d (diagnosis_size c) 0.01
      \<and> bn_point_last c = MyBatchNorm1d (last_linear_size c) 0.01)
   \<and> (batchnorm c = ''default'' \<longrightarrow>
      bn_diagnosis_encoder c = BatchNorm1d (diagnosis_size c)
      \<and> bn_point_last c = BatchNorm1d (last_linear_size c))
   \<and> (batchnorm c = ''pointonly'' \<longrightarrow>
      bn_diagnosis_encoder c = EmptyModule
      \<and> bn_point_last c = MyBatchNorm1d (last_linear_size c) 0.1)"
  by (simp add: bn_diagnosis_encoder_def bn_point_last_def momentum_def)

theorem batchnorm_dispatch_witness:
  "bn_diagnosis_encoder (cfg0\<lparr>batchnorm := ''none''\<rparr>) = EmptyModule
   \<and> bn_point_last (cfg0\<lparr>batchnorm := ''none''\<rparr>) = EmptyModule
   \<and> bn_diagnosis_encoder (cfg0\<lparr>batchnorm := ''pointonly''\<rparr>) = EmptyModule
   \<and> bn_point_last (cfg0\<lparr>batchnorm := ''pointonly''\<rparr>) = MyBatchNorm1d 17 0.1
   \<and> bn_diagnosis_encoder (cfg0\<lparr>batchnorm := ''low_momentum''\<rparr>) = MyBatchNorm1d 64 0.01
   \<and> bn_point_last (cfg0\<lparr>batchnorm := ''default''\<rparr>) = BatchNorm1d 17
   \<and> bn_diagnosis_encoder (cfg0\<lparr>batchnorm := ''mybatchnorm''\<rparr>) = MyBatchNorm1d 64 0.1"
  using batchnorm_dispatch [of "cfg0\<lparr>batchnorm := ''none''\<rparr>"]
    batchnorm_dispatch [of "cfg0\<lparr>batchnorm := ''pointonly''\<rparr>"]
    batchnorm_dispatch [of "cfg0\<lparr>batchnorm := ''low_momentum''\<rparr>"]
    batchnorm_dispatch [of "cfg0\<lparr>batchnorm := ''default''\<rparr>"]
    batchnorm_dispatch [of "cfg0\<lparr>batchnorm := ''mybatchnorm''\<rparr>"]
  by (simp add: cfg0_def)

text \<open>
  Claim C9, amended. For every odd \<open>d_model\<close> of at least 3 the construction of the
  positional table fails: the cosines of the \<open>(d_model + 1) / 2\<close> frequency terms do not
  fit the \<open>(d_model - 1) / 2\<close> odd channels.
\<close>

theorem positional_table_odd_fails:
  assumes "odd dm" "3 \<le> dm"
  shows "PositionalEncoding_init dm max_len = Inl RuntimeError"
proof -
  from assms obtain k where "dm = 2 * k + 1" "1 \<le> k"
    by (auto elim!: oddE)
  then show ?thesis
    using PositionalEncoding_init_odd [of k max_len] by simp
qed

theorem positional_table_odd_fails_witness:
  "odd (5::nat) \<and> PositionalEncoding_init 5 336 = Inl RuntimeError"
  using positional_table_odd_fails [of 5 336] by simp

text \<open>
  The claim as stated fails for \<open>d_model = 1\<close>: there is one frequency term and no odd
  channel, the single column of cosines is broadcast to the empty view, and the table is
  constructed.
\<close>

theorem positional_table_odd_counterexample:
  "odd (1::nat) \<and> \<not> isl (PositionalEncoding_init 1 (14 * 24))"
  using PositionalEncoding_init_one [of "14 * 24"] by auto

text \<open>
  Claim C10, amended. The forward call returns predictions only for \<open>T \<ge> 6\<close>, and
  then of shape \<open>B * (T - 5)\<close>, which is not empty for a batch that is not empty; for
  every \<open>T \<le> 5\<close> it fails, whatever the other inputs: below 5 in
  \<open>repeat_interleave\<close> with a negative count, at 5 in \<open>view(0, -1)\<close>, whose inferred
  size is ambiguous for a tensor without elements.
\<close>

theorem forward_needs_six_timesteps:
  "(T \<le> 5 \<longrightarrow> isl (Transformer_forward m training [B, C, T] diagnoses flat))
   \<and> (\<forall>P. Transformer_forward m training [B, C, T] diagnoses flat = Inr P \<longrightarrow>
          6 \<le> T \<and> P = [B, T - 5])"
proof (intro conjI allI impI)
  assume "T \<le> 5"
  then show "isl (Transformer_forward m training [B, C, T] diagnoses flat)"
    by (rule Transformer_forward_short)
next
  fix P assume "Transformer_forward m training [B, C, T] diagnoses flat = Inr P"
  from Transformer_forward_result [OF this] show "6 \<le> T" "P = [B, T - 5]"
    by simp_all
qed

theorem forward_needs_six_timesteps_witness:
  "\<exists>m. Transformer_init cfg0 3 5 4 = Inr m
     \<and> isl (Transformer_forward m False [2, 8, 5] [2, 5] [2, 4])
     \<and> isl (Transformer_forward m False [2, 8, 3] [2, 5] [2, 4])
     \<and> Transformer_forward m False [2, 8, 6] [2, 5] [2, 4] = Inr [2, 1]"
proof -
  from cfg0_init [of 3 5 4] obtain m where m: "Transformer_init cfg0 3 5 4 = Inr m"
    by blast
  have ok: "Transformer_forward m False [2, 8, 6] [2, 5] [2, 4] = Inr [2, 1]"
    using Transformer_forward_shape [OF m, of 2 6 False] by (simp add: max_len_default_def)
  from forward_needs_six_timesteps [of 5 m False 2 8 "[2, 5]" "[2, 4]"]
  have a: "isl (Transformer_forward m False [2, 8, 5] [2, 5] [2, 4])"
    by simp
  from forward_needs_six_timesteps [of 3 m False 2 8 "[2, 5]" "[2, 4]"]
  have b: "isl (Transformer_forward m False [2, 8, 3] [2, 5] [2, 4])"
    by simp
  from forward_needs_six_timesteps [of 6 m False 2 8 "[2, 5]" "[2, 4]"] ok
  have "Transformer_forward m False [2, 8, 6] [2, 5] [2, 4] = Inr [2, 6 - 5]"
    by simp
  with m a b show ?thesis by auto
qed

text \<open>
  The claim as stated fails at \<open>T = 5\<close>: the model of the example is constructed and
  the forward call on a batch of five timesteps fails instead of returning an empty
  tensor.
\<close>

theorem forward_five_timesteps_counterexample:
  "\<not> isl (Transformer_init cfg0 3 5 4)
   \<and> construct_and_forward cfg0 3 5 4 False [2, 8, 5] [2, 5] [2, 4] = Inl RuntimeError"
proof -
  from cfg0_init [of 3 5 4] obtain m where m: "Transformer_init cfg0 3 5 4 = Inr m"
    by blast
  have "Transformer_forward m False [2, 8, 5] [2, 5] [2, 4] = Inl RuntimeError"
    using Transformer_forward_T5 [OF m, of False 2] by simp
  with m show ?thesis
    by (simp add: construct_and_forward_def)
qed

end
